theory Spec2Isabelle
  imports Main "HOL-Library.AList"
begin

section \<open>Speactive: remembered objects, components and delegation\<close>

text \<open>
  The development embeds the three source files of the library:
  \<^item> \<^verbatim>\<open>remember\<close> (the proxy around a data record, with its \<^verbatim>\<open>set\<close> and \<^verbatim>\<open>get\<close>
    traps and the private \<^verbatim>\<open>subscribers\<close> map),
  \<^item> the \<^verbatim>\<open>Component\<close> class (constructor, \<^verbatim>\<open>setInnerText\<close>, \<^verbatim>\<open>setAttribute\<close>,
    \<^verbatim>\<open>setCSSStyle\<close>, \<^verbatim>\<open>destroy\<close>),
  \<^item> \<^verbatim>\<open>delegate\<close>.

  Objects with identity (remembered objects, components, DOM elements) are references
  into a \<open>world\<close>, which every operation takes and returns. An operation that can throw
  returns an \<open>outcome\<close> that keeps the world as it was at the \<^verbatim>\<open>throw\<close>, since JavaScript
  does not undo the assignments made before an exception.

  Boundaries of the model, each a property of the environment and not of the library:
  \<^item> a subscription descriptor has its declared type \<^verbatim>\<open>RememberedArg\<close>: an array of
    entries, each property of an entry holding a remembered object, a \<^verbatim>\<open>string[]\<close> or
    \<^verbatim>\<open>undefined\<close>;
  \<^item> a descriptor entry and \<^verbatim>\<open>dataSources\<close> are plain objects: their prototype is
    \<^verbatim>\<open>Object.prototype\<close>, which has the twelve members the language gives it, so \<^verbatim>\<open>k in o\<close>
    and \<^verbatim>\<open>o[k]\<close> find an inherited member where \<open>o\<close> has no property \<open>k\<close> of its own;
  \<^item> the record wrapped by \<^verbatim>\<open>remember\<close> is read and written at its own data properties;
  \<^item> an assignment to the key \<^verbatim>\<open>__proto__\<close> changes the prototype of an object and is not
    modelled: where the code makes one, the model says \<open>Outside_model\<close>;
  \<^item> a data source is a function of the remembered objects it reads and returns a value;
  \<^item> the DOM is the trace of the calls made to it (\<open>surface\<close>);
  \<^item> an updater written by the application (\<open>CustomUpdater\<close>) is opaque: the model
    records that it was called and with which argument;
  \<^item> the \<^verbatim>\<open>console.log\<close> of \<^verbatim>\<open>remember\<close> is left out.
\<close>

subsection \<open>Values and plain objects\<close>

type_synonym store_ref = nat
type_synonym comp_ref = nat
type_synonym elem_ref = nat

text \<open>The values a remembered object holds and a data source returns; \<open>JNewObject\<close> is
  a new empty object, as \<^verbatim>\<open>Object()\<close> returns.\<close>

datatype jsval = JUndefined | JNull | JBool bool | JNum int | JStr string | JNewObject

text \<open>A property key (\<^verbatim>\<open>PropertyKey\<close>): a string or a symbol.\<close>

datatype pkey = PName string | PSymbol string

record property =
  pvalue :: jsval
  writable :: bool

text \<open>The record wrapped by \<^verbatim>\<open>remember\<close> (\<^verbatim>\<open>initialData\<close>, the proxy's \<^verbatim>\<open>target\<close>).\<close>

record jsobject =
  props :: "pkey \<rightharpoonup> property"
  extensible :: bool

text \<open>\<^verbatim>\<open>Reflect.get(target, p, target)\<close> on data properties.\<close>

definition Reflect_get :: "jsobject \<Rightarrow> pkey \<Rightarrow> jsval" where
  "Reflect_get t p = (case props t p of None \<Rightarrow> JUndefined | Some pr \<Rightarrow> pvalue pr)"

text \<open>
  \<^verbatim>\<open>Reflect.set(target, p, newValue, target)\<close> on data properties: an existing property is
  overwritten when it is writable, a missing one is created when the object is
  extensible; otherwise nothing changes and the result is \<^verbatim>\<open>false\<close>.
\<close>

definition Reflect_set :: "jsobject \<Rightarrow> pkey \<Rightarrow> jsval \<Rightarrow> bool \<times> jsobject" where
  "Reflect_set t p v =
     (case props t p of
        Some pr \<Rightarrow>
          if writable pr then (True, t\<lparr>props := (props t)(p \<mapsto> pr\<lparr>pvalue := v\<rparr>)\<rparr>)
          else (False, t)
      | None \<Rightarrow>
          if extensible t
          then (True, t\<lparr>props := (props t)(p \<mapsto> \<lparr>pvalue = v, writable = True\<rparr>)\<rparr>)
          else (False, t))"

subsection \<open>Subscription descriptors (\<^verbatim>\<open>RememberedArg\<close>)\<close>

text \<open>
  What a property of a descriptor entry can hold: the remembered object under
  \<^verbatim>\<open>'_#remember'\<close>, and under a field name a \<^verbatim>\<open>string[]\<close> or \<^verbatim>\<open>undefined\<close>
  (\<^verbatim>\<open>RememberedData\<close> makes every field optional).
\<close>

datatype pval = PStore store_ref | PDeps "string list" | PUndefined

text \<open>
  An entry is a plain object: its own properties in insertion order. \<^verbatim>\<open>RememberedArg\<close> is
  an array of entries.
\<close>

type_synonym entry = "(string \<times> pval) list"
type_synonym RememberedArg = "entry list"

text \<open>
  The property names of \<^verbatim>\<open>Object.prototype\<close>, which every plain object inherits. All are
  functions but \<^verbatim>\<open>__proto__\<close>, an accessor that yields the prototype itself.
\<close>

definition Object_prototype_names :: "string list" where
  "Object_prototype_names =
     [''constructor'', ''hasOwnProperty'', ''isPrototypeOf'', ''propertyIsEnumerable'',
      ''toLocaleString'', ''toString'', ''valueOf'', ''__proto__'', ''__defineGetter__'',
      ''__defineSetter__'', ''__lookupGetter__'', ''__lookupSetter__'']"

text \<open>\<^verbatim>\<open>k in o\<close> on a plain object: an own property, or an inherited one.\<close>

definition has_property :: "(string \<times> 'v) list \<Rightarrow> string \<Rightarrow> bool" where
  "has_property e k = (k \<in> fst ` set e \<or> k \<in> set Object_prototype_names)"

text \<open>
  \<^verbatim>\<open>o[k]\<close> on an entry of the declared type, for a key that \<^verbatim>\<open>Object.prototype\<close> does not
  have: the own property, or \<^verbatim>\<open>undefined\<close>. The library reads a registered entry at two keys
  only, \<^verbatim>\<open>'_#remember'\<close> and \<^verbatim>\<open>includes\<close>.
\<close>

definition obj_get :: "entry \<Rightarrow> string \<Rightarrow> pval" where
  "obj_get e k = (case map_of e k of None \<Rightarrow> PUndefined | Some v \<Rightarrow> v)"

text \<open>\<^verbatim>\<open>o[k] = v\<close> for a key other than \<^verbatim>\<open>__proto__\<close>: the own property is overwritten, or
  added after the others.\<close>

definition obj_set :: "string \<Rightarrow> 'v \<Rightarrow> (string \<times> 'v) list \<Rightarrow> (string \<times> 'v) list" where
  "obj_set k v e = AList.update k v e"

text \<open>
  \<^verbatim>\<open>delegate\<close> reads entries at keys its caller chooses, so what it reads and writes is a
  declared value or a member of \<^verbatim>\<open>Object.prototype\<close>, named by its key.
\<close>

datatype dval = Declared pval | Inherited string

type_synonym dentry = "(string \<times> dval) list"

text \<open>\<^verbatim>\<open>o[k]\<close> on a plain object, for every key.\<close>

definition js_get :: "dentry \<Rightarrow> string \<Rightarrow> dval" where
  "js_get e k =
     (case map_of e k of
        Some v \<Rightarrow> v
      | None \<Rightarrow> if k \<in> set Object_prototype_names then Inherited k else Declared PUndefined)"

text \<open>An entry of the declared type as such an object, and back when every value is a
  declared one.\<close>

definition lift_entry :: "entry \<Rightarrow> dentry" where
  "lift_entry e = map (\<lambda>kv. (fst kv, Declared (snd kv))) e"

fun declared_property :: "string \<times> dval \<Rightarrow> (string \<times> pval) option" where
  "declared_property (k, Declared v) = Some (k, v)"
| "declared_property (k, Inherited n) = None"

definition declared_entry :: "dentry \<Rightarrow> entry option" where
  "declared_entry e = those (map declared_property e)"

definition declared_descriptor :: "dentry list \<Rightarrow> RememberedArg option" where
  "declared_descriptor d = those (map declared_entry d)"

text \<open>The result of a function the model covers only in part.\<close>

datatype 'a modelled = Modelled 'a | Outside_model

subsection \<open>The world\<close>

text \<open>A remembered object: the wrapped record and the \<^verbatim>\<open>subscribers\<close> map of its closure
  (a \<^verbatim>\<open>Map\<close>, so insertion-ordered and keyed by component identity).\<close>

record store =
  data :: jsobject
  subscribers :: "(comp_ref \<times> RememberedArg) list"

text \<open>
  The closures stored in \<^verbatim>\<open>Component.updaters\<close>. The three built-in ones capture
  \<^verbatim>\<open>this\<close>, the field name and the element (and the attribute or style name).
\<close>

datatype updater =
    InnerTextUpdater comp_ref string elem_ref
  | AttributeUpdater comp_ref string string elem_ref
  | CSSStyleUpdater comp_ref string string elem_ref
  | CustomUpdater nat

type_synonym dataSource = "(store_ref \<Rightarrow> store) \<Rightarrow> jsval"

record component =
  dataSources :: "string \<rightharpoonup> dataSource"
  updaters :: "string \<rightharpoonup> updater"
  root :: elem_ref
  remembered :: RememberedArg

text \<open>The calls made to the DOM.\<close>

datatype surface_call =
    CreateElement string elem_ref
  | RemoveElement elem_ref
  | SetInnerText elem_ref jsval
  | SetAttribute elem_ref string jsval
  | RemoveAttribute elem_ref string
  | SetStyle elem_ref string jsval

record world =
  stores :: "store_ref \<Rightarrow> store"
  comps :: "comp_ref \<Rightarrow> component"
  next_store :: store_ref
  next_comp :: comp_ref
  next_elem :: elem_ref
  surface :: "surface_call list"
  invoked :: "(updater \<times> jsval) list"

datatype error = TypeError

datatype 'a outcome = Returns 'a world | Throws error world

fun world_of :: "'a outcome \<Rightarrow> world" where
  "world_of (Returns x w) = w"
| "world_of (Throws e w) = w"

fun throws :: "'a outcome \<Rightarrow> bool" where
  "throws (Returns x w) = False"
| "throws (Throws e w) = True"

definition empty_store :: store where
  "empty_store = \<lparr>data = \<lparr>props = Map.empty, extensible = True\<rparr>, subscribers = []\<rparr>"

definition empty_component :: component where
  "empty_component =
     \<lparr>dataSources = Map.empty, updaters = Map.empty, root = 0, remembered = []\<rparr>"

text \<open>The world before the program has created anything.\<close>

definition init_world :: world where
  "init_world =
     \<lparr>stores = (\<lambda>s. empty_store), comps = (\<lambda>c. empty_component),
      next_store = 0, next_comp = 0, next_elem = 0, surface = [], invoked = []\<rparr>"

subsection \<open>Updaters\<close>

text \<open>
  \<^verbatim>\<open>dataSource()\<close> when \<^verbatim>\<open>this.dataSources\<close> has no property of its own under the field name
  but \<^verbatim>\<open>Object.prototype\<close> has a member of that name. The member is found and is not falsy,
  so it is called, with no receiver and no argument. \<^verbatim>\<open>toString\<close> returns
  \<^verbatim>\<open>"[object Undefined]"\<close>; \<^verbatim>\<open>isPrototypeOf\<close> returns \<^verbatim>\<open>false\<close>, its argument being no
  object; \<^verbatim>\<open>constructor\<close> is \<^verbatim>\<open>Object\<close> and returns a new object. The other functions
  convert their receiver to an object first, which throws for \<^verbatim>\<open>undefined\<close>, and the value
  of \<^verbatim>\<open>__proto__\<close> is the prototype, which is no function.
\<close>

definition call_inherited :: "string \<Rightarrow> error + jsval" where
  "call_inherited n =
     (if n = ''toString'' then Inr (JStr ''[object Undefined]'')
      else if n = ''isPrototypeOf'' then Inr (JBool False)
      else if n = ''constructor'' then Inr JNewObject
      else Inl TypeError)"

text \<open>
  The first three lines of every built-in updater:
  \<^verbatim>\<open>const dataSource = this.dataSources[fieldName]; if (!dataSource) return;\<close> and the call
  \<^verbatim>\<open>dataSource()\<close>. The result is \<open>None\<close> when the updater returns at the \<^verbatim>\<open>if\<close>, and
  otherwise what the call gives.
\<close>

definition read_dataSource :: "world \<Rightarrow> comp_ref \<Rightarrow> string \<Rightarrow> (error + jsval) option" where
  "read_dataSource w c fieldName =
     (case dataSources (comps w c) fieldName of
        Some dataSource \<Rightarrow> Some (Inr (dataSource (stores w)))
      | None \<Rightarrow>
          if fieldName \<in> set Object_prototype_names then Some (call_inherited fieldName)
          else None)"

definition nullish :: "jsval \<Rightarrow> bool" where
  "nullish v = (v = JNull \<or> v = JUndefined)"

text \<open>The bodies of the updaters.\<close>

fun updater_body :: "updater \<Rightarrow> world \<Rightarrow> unit outcome" where
  "updater_body (InnerTextUpdater c fieldName element) w =
     (case read_dataSource w c fieldName of
        None \<Rightarrow> Returns () w
      | Some (Inl e) \<Rightarrow> Throws e w
      | Some (Inr d) \<Rightarrow> Returns () (w\<lparr>surface := surface w @ [SetInnerText element d]\<rparr>))"
| "updater_body (AttributeUpdater c attributeName fieldName element) w =
     (case read_dataSource w c fieldName of
        None \<Rightarrow> Returns () w
      | Some (Inl e) \<Rightarrow> Throws e w
      | Some (Inr d) \<Rightarrow>
          if \<not> nullish d
          then Returns () (w\<lparr>surface := surface w @ [SetAttribute element attributeName d]\<rparr>)
          else Returns () (w\<lparr>surface := surface w @ [RemoveAttribute element attributeName]\<rparr>))"
| "updater_body (CSSStyleUpdater c style fieldName element) w =
     (case read_dataSource w c fieldName of
        None \<Rightarrow> Returns () w
      | Some (Inl e) \<Rightarrow> Throws e w
      | Some (Inr d) \<Rightarrow>
          if \<not> nullish d
          then Returns () (w\<lparr>surface := surface w @ [SetStyle element style d]\<rparr>)
          else Returns () (w\<lparr>surface := surface w @ [SetStyle element style (JStr [])]\<rparr>))"
| "updater_body (CustomUpdater n) w = Returns () w"

text \<open>Calling an updater with one argument: the call is recorded, then the body runs.\<close>

definition call_updater :: "updater \<Rightarrow> jsval \<Rightarrow> world \<Rightarrow> unit outcome" where
  "call_updater u a w = updater_body u (w\<lparr>invoked := invoked w @ [(u, a)]\<rparr>)"

subsection \<open>\<^verbatim>\<open>remember\<close>\<close>

text \<open>\<^verbatim>\<open>remember(initialData)\<close>: a new proxy with an empty \<^verbatim>\<open>subscribers\<close> map.\<close>

definition remember :: "jsobject \<Rightarrow> world \<Rightarrow> store_ref \<times> world" where
  "remember initialData w =
     (next_store w,
      w\<lparr>stores := (stores w)(next_store w := \<lparr>data = initialData, subscribers = []\<rparr>),
        next_store := Suc (next_store w)\<rparr>)"

text \<open>
  The \<^verbatim>\<open>get\<close> trap. For \<^verbatim>\<open>rememberSymbol\<close> and \<^verbatim>\<open>forgetSymbol\<close> it returns a closure; the
  two closures are \<open>rememberSymbol\<close> (\<^verbatim>\<open>subscribers.set(component, remembered)\<close>) and
  \<open>forgetSymbol\<close> (\<^verbatim>\<open>subscribers.delete(component)\<close>). For every other key it is
  \<^verbatim>\<open>Reflect.get\<close>.
\<close>

definition rememberSymbol :: "store_ref \<Rightarrow> comp_ref \<Rightarrow> RememberedArg \<Rightarrow> world \<Rightarrow> world" where
  "rememberSymbol s component remembered_arg w =
     w\<lparr>stores := (stores w)
        (s := (stores w s)\<lparr>subscribers :=
                 AList.update component remembered_arg (subscribers (stores w s))\<rparr>)\<rparr>"

definition forgetSymbol :: "store_ref \<Rightarrow> comp_ref \<Rightarrow> world \<Rightarrow> world" where
  "forgetSymbol s component w =
     w\<lparr>stores := (stores w)
        (s := (stores w s)\<lparr>subscribers :=
                 AList.delete component (subscribers (stores w s))\<rparr>)\<rparr>"

definition proxy_get :: "store \<Rightarrow> pkey \<Rightarrow> jsval" where
  "proxy_get st p = Reflect_get (data st) p"

text \<open>
  The \<^verbatim>\<open>set\<close> trap, line by line.

  \<^verbatim>\<open>for (const field in subscriber[1])\<close>: \<^verbatim>\<open>subscriber[1]\<close> is the value registered under
  the component, which is the \<^verbatim>\<open>RememberedArg\<close> array the constructor passed. \<^verbatim>\<open>for ... in\<close>
  over an array yields its indices as decimal strings, so \<^verbatim>\<open>field\<close> is \<^verbatim>\<open>"0"\<close>, \<^verbatim>\<open>"1"\<close>, ...
  and \<^verbatim>\<open>subscriber[1][field]\<close> is the entry at that index.
\<close>

definition digit_char :: "nat \<Rightarrow> char" where
  "digit_char d = ''0123456789'' ! d"

fun index_key :: "nat \<Rightarrow> string" where
  "index_key n =
     (if n < 10 then [digit_char n] else index_key (n div 10) @ [digit_char (n mod 10)])"

declare index_key.simps [simp del]

text \<open>
  \<^verbatim>\<open>x?.includes(p)\<close> for an entry \<^verbatim>\<open>x\<close>. An entry is an object, never \<^verbatim>\<open>undefined\<close> or
  \<^verbatim>\<open>null\<close>, so the optional chain does not stop: the property \<^verbatim>\<open>includes\<close> of the entry is
  read (\<^verbatim>\<open>undefined\<close> unless the entry has a field of that name) and called. None of the
  values an entry holds is a function, and calling one throws a \<^verbatim>\<open>TypeError\<close>.
\<close>

fun call_pval :: "pval \<Rightarrow> pkey \<Rightarrow> error + bool" where
  "call_pval PUndefined p = Inl TypeError"
| "call_pval (PDeps ds) p = Inl TypeError"
| "call_pval (PStore s) p = Inl TypeError"

definition includes_call :: "entry \<Rightarrow> pkey \<Rightarrow> error + bool" where
  "includes_call x p = call_pval (obj_get x ''includes'') p"

text \<open>The first inner loop, over the pairs of an index and the entry there; \<open>acc\<close> is
  \<^verbatim>\<open>fieldsToUpdate\<close>.\<close>

fun fields_to_update ::
  "(nat \<times> entry) list \<Rightarrow> pkey \<Rightarrow> string list \<Rightarrow> error + string list" where
  "fields_to_update [] p acc = Inr acc"
| "fields_to_update ((i, x) # rest) p acc =
     (let field = index_key i in
      if field = ''_#remember'' then fields_to_update rest p acc
      else
        (case includes_call x p of
           Inl e \<Rightarrow> Inl e
         | Inr b \<Rightarrow> fields_to_update rest p (if b then acc @ [field] else acc)))"

text \<open>The second inner loop: \<^verbatim>\<open>subscriber[0].updaters.get(field)?.(oldValue)\<close>. An
  exception of an updater leaves the loop and the trap.\<close>

fun call_updaters :: "comp_ref \<Rightarrow> string list \<Rightarrow> jsval \<Rightarrow> world \<Rightarrow> unit outcome" where
  "call_updaters c [] oldValue w = Returns () w"
| "call_updaters c (field # rest) oldValue w =
     (case updaters (comps w c) field of
        None \<Rightarrow> call_updaters c rest oldValue w
      | Some u \<Rightarrow>
          (case call_updater u oldValue w of
             Throws e w' \<Rightarrow> Throws e w'
           | Returns x w' \<Rightarrow> call_updaters c rest oldValue w'))"

text \<open>The loop over \<^verbatim>\<open>subscribers\<close>.\<close>

fun notify ::
  "(comp_ref \<times> RememberedArg) list \<Rightarrow> pkey \<Rightarrow> jsval \<Rightarrow> world \<Rightarrow> unit outcome" where
  "notify [] p oldValue w = Returns () w"
| "notify ((c, d) # rest) p oldValue w =
     (case fields_to_update (List.enumerate 0 d) p [] of
        Inl e \<Rightarrow> Throws e w
      | Inr fieldsToUpdate \<Rightarrow>
          (case call_updaters c fieldsToUpdate oldValue w of
             Throws e w' \<Rightarrow> Throws e w'
           | Returns x w' \<Rightarrow> notify rest p oldValue w'))"

text \<open>
  The trap itself. Its result is \<^verbatim>\<open>returnValue\<close>, the result of \<^verbatim>\<open>Reflect.set\<close>; the
  loop runs between the write and the \<^verbatim>\<open>return\<close>, whatever \<^verbatim>\<open>returnValue\<close> is.
\<close>

definition proxy_set :: "store_ref \<Rightarrow> pkey \<Rightarrow> jsval \<Rightarrow> world \<Rightarrow> bool outcome" where
  "proxy_set s p newValue w =
     (let st = stores w s;
          oldValue = Reflect_get (data st) p;
          (returnValue, t) = Reflect_set (data st) p newValue;
          w1 = w\<lparr>stores := (stores w)(s := st\<lparr>data := t\<rparr>)\<rparr>
      in case notify (subscribers st) p oldValue w1 of
           Throws e w2 \<Rightarrow> Throws e w2
         | Returns u w2 \<Rightarrow> Returns returnValue w2)"

subsection \<open>\<^verbatim>\<open>Component\<close>\<close>

text \<open>
  The constructor's loop: \<^verbatim>\<open>remembered['_#remember'][rememberSymbol](this, this.remembered)\<close>
  for every entry. Reading \<^verbatim>\<open>rememberSymbol\<close> from \<^verbatim>\<open>undefined\<close> throws, and on an array it
  gives \<^verbatim>\<open>undefined\<close>, whose call throws.
\<close>

fun register_all :: "comp_ref \<Rightarrow> RememberedArg \<Rightarrow> entry list \<Rightarrow> world \<Rightarrow> unit outcome" where
  "register_all this whole [] w = Returns () w"
| "register_all this whole (r # rest) w =
     (case obj_get r ''_#remember'' of
        PStore s \<Rightarrow> register_all this whole rest (rememberSymbol s this whole w)
      | PDeps ds \<Rightarrow> Throws TypeError w
      | PUndefined \<Rightarrow> Throws TypeError w)"

definition Component ::
  "(string \<rightharpoonup> dataSource) \<Rightarrow> string \<Rightarrow> RememberedArg \<Rightarrow> world \<Rightarrow> comp_ref outcome" where
  "Component ds rootTag remembered_arg w =
     (let this = next_comp w;
          el = next_elem w;
          w1 = w\<lparr>comps := (comps w)
                  (this := \<lparr>dataSources = ds, updaters = Map.empty, root = el,
                            remembered = remembered_arg\<rparr>),
                next_comp := Suc this,
                next_elem := Suc el,
                surface := surface w @ [CreateElement rootTag el]\<rparr>
      in case register_all this remembered_arg remembered_arg w1 of
           Throws e w2 \<Rightarrow> Throws e w2
         | Returns u w2 \<Rightarrow> Returns this w2)"

text \<open>\<^verbatim>\<open>this.updaters.set(fieldName, updater)\<close>.\<close>

definition updaters_set :: "comp_ref \<Rightarrow> string \<Rightarrow> updater \<Rightarrow> world \<Rightarrow> world" where
  "updaters_set this fieldName u w =
     w\<lparr>comps := (comps w)
        (this := (comps w this)\<lparr>updaters := (updaters (comps w this))(fieldName \<mapsto> u)\<rparr>)\<rparr>"

text \<open>The default \<^verbatim>\<open>element = this.root\<close> of the three methods.\<close>

definition element_or_root :: "comp_ref \<Rightarrow> elem_ref option \<Rightarrow> world \<Rightarrow> elem_ref" where
  "element_or_root this element w =
     (case element of None \<Rightarrow> root (comps w this) | Some el \<Rightarrow> el)"


text \<open>Each of the three methods builds its updater, calls it with no argument
  (\<^verbatim>\<open>updater()\<close>) and then stores it; when the call throws, the method throws and has
  stored nothing.\<close>

definition setInnerText ::
  "comp_ref \<Rightarrow> string \<Rightarrow> elem_ref option \<Rightarrow> world \<Rightarrow> unit outcome" where
  "setInnerText this fieldName element w =
     (let u = InnerTextUpdater this fieldName (element_or_root this element w)
      in case call_updater u JUndefined w of
           Throws e w' \<Rightarrow> Throws e w'
         | Returns x w' \<Rightarrow> Returns () (updaters_set this fieldName u w'))"

definition setAttribute ::
  "comp_ref \<Rightarrow> string \<Rightarrow> string \<Rightarrow> elem_ref option \<Rightarrow> world \<Rightarrow> unit outcome" where
  "setAttribute this attributeName fieldName element w =
     (let u = AttributeUpdater this attributeName fieldName (element_or_root this element w)
      in case call_updater u JUndefined w of
           Throws e w' \<Rightarrow> Throws e w'
         | Returns x w' \<Rightarrow> Returns () (updaters_set this fieldName u w'))"

definition setCSSStyle ::
  "comp_ref \<Rightarrow> string \<Rightarrow> string \<Rightarrow> elem_ref option \<Rightarrow> world \<Rightarrow> unit outcome" where
  "setCSSStyle this style fieldName element w =
     (let u = CSSStyleUpdater this style fieldName (element_or_root this element w)
      in case call_updater u JUndefined w of
           Throws e w' \<Rightarrow> Throws e w'
         | Returns x w' \<Rightarrow> Returns () (updaters_set this fieldName u w'))"

text \<open>
  \<^verbatim>\<open>Object.assign(target, source)\<close> copies the properties of \<^verbatim>\<open>source\<close> onto \<^verbatim>\<open>target\<close> and
  removes none.
\<close>

definition Object_assign :: "('k \<rightharpoonup> 'v) \<Rightarrow> ('k \<rightharpoonup> 'v) \<Rightarrow> ('k \<rightharpoonup> 'v)" where
  "Object_assign tgt src = tgt ++ src"

text \<open>The loop of \<^verbatim>\<open>destroy\<close>: \<^verbatim>\<open>remembered['_#remember'][forgetSymbol](this)\<close>.\<close>

fun forget_all :: "comp_ref \<Rightarrow> entry list \<Rightarrow> world \<Rightarrow> unit outcome" where
  "forget_all this [] w = Returns () w"
| "forget_all this (r # rest) w =
     (case obj_get r ''_#remember'' of
        PStore s \<Rightarrow> forget_all this rest (forgetSymbol s this w)
      | PDeps ds \<Rightarrow> Throws TypeError w
      | PUndefined \<Rightarrow> Throws TypeError w)"

definition destroy :: "comp_ref \<Rightarrow> world \<Rightarrow> unit outcome" where
  "destroy this w =
     (let w1 = w\<lparr>surface := surface w @ [RemoveElement (root (comps w this))]\<rparr>;
          w2 = w1\<lparr>comps := (comps w1)(this := (comps w1 this)\<lparr>updaters := Map.empty\<rparr>)\<rparr>;
          w3 = w2\<lparr>comps := (comps w2)
                  (this := (comps w2 this)\<lparr>dataSources :=
                             Object_assign (dataSources (comps w2 this)) Map.empty\<rparr>)\<rparr>
      in forget_all this (remembered (comps w3 this)) w3)"

subsection \<open>\<^verbatim>\<open>delegate\<close>\<close>

text \<open>An element of the parameter \<^verbatim>\<open>fields\<close> (here \<open>mappings\<close>): \<^verbatim>\<open>{ source, target }\<close>.\<close>

record field_mapping =
  source :: string
  target :: string

text \<open>The loop of the \<^verbatim>\<open>map\<close> callback: one assignment
  \<^verbatim>\<open>newRemembered[field.target] = remembered[field.source]\<close> per mapping, in order.\<close>

fun assign_fields :: "field_mapping list \<Rightarrow> dentry \<Rightarrow> dentry \<Rightarrow> dentry modelled" where
  "assign_fields [] r newRemembered = Modelled newRemembered"
| "assign_fields (field # rest) r newRemembered =
     (if target field = ''__proto__'' then Outside_model
      else assign_fields rest r
             (obj_set (target field) (js_get r (source field)) newRemembered))"

text \<open>The callback: a new object with the same \<^verbatim>\<open>'_#remember'\<close>, then the loop.\<close>

definition delegate_entry :: "field_mapping list \<Rightarrow> dentry \<Rightarrow> dentry modelled" where
  "delegate_entry mappings r =
     assign_fields mappings r [(''_#remember'', js_get r ''_#remember'')]"

text \<open>\<^verbatim>\<open>Array.prototype.map\<close> with a callback the model covers in part.\<close>

fun map_modelled :: "('a \<Rightarrow> 'b modelled) \<Rightarrow> 'a list \<Rightarrow> 'b list modelled" where
  "map_modelled f [] = Modelled []"
| "map_modelled f (x # xs) =
     (case f x of
        Outside_model \<Rightarrow> Outside_model
      | Modelled y \<Rightarrow>
          (case map_modelled f xs of
             Outside_model \<Rightarrow> Outside_model
           | Modelled ys \<Rightarrow> Modelled (y # ys)))"

definition delegate :: "dentry list \<Rightarrow> field_mapping list \<Rightarrow> dentry list modelled" where
  "delegate rememberedArg mappings =
     map_modelled (delegate_entry mappings)
       (filter (\<lambda>r. list_ex (\<lambda>field. has_property r (source field)) mappings) rememberedArg)"

text \<open>\<^verbatim>\<open>delegate\<close> from a descriptor of the declared type to one: its result, when that
  has the declared type again and can be given to a component.\<close>

definition delegate_declared :: "RememberedArg \<Rightarrow> field_mapping list \<Rightarrow> RememberedArg option" where
  "delegate_declared rememberedArg mappings =
     (case delegate (map lift_entry rememberedArg) mappings of
        Modelled d \<Rightarrow> declared_descriptor d
      | Outside_model \<Rightarrow> None)"

subsection \<open>\<^verbatim>\<open>delegate\<close> with its objects in a heap\<close>









subsection \<open>Programs: sequences of operations\<close>


text \<open>The worlds a program can reach through the library's interface: every operation
  above, and \<^verbatim>\<open>this.updaters.set\<close> called by a subclass with an updater of its own.\<close>

inductive reachable :: "world \<Rightarrow> bool" where
  r_init: "reachable init_world"
| r_remember: "reachable w \<Longrightarrow> reachable (snd (remember initialData w))"
| r_rememberSymbol: "reachable w \<Longrightarrow> reachable (rememberSymbol s c d w)"
| r_forgetSymbol: "reachable w \<Longrightarrow> reachable (forgetSymbol s c w)"
| r_set: "reachable w \<Longrightarrow> reachable (world_of (proxy_set s p v w))"
| r_Component: "reachable w \<Longrightarrow> reachable (world_of (Component ds rootTag d w))"
| r_setInnerText: "reachable w \<Longrightarrow> reachable (world_of (setInnerText c f element w))"
| r_setAttribute: "reachable w \<Longrightarrow> reachable (world_of (setAttribute c a f element w))"
| r_setCSSStyle: "reachable w \<Longrightarrow> reachable (world_of (setCSSStyle c a f element w))"
| r_updaters_set: "reachable w \<Longrightarrow> reachable (updaters_set c f u w)"
| r_destroy: "reachable w \<Longrightarrow> reachable (world_of (destroy c w))"

subsection \<open>Notions the properties are stated with\<close>

text \<open>The updater calls made between two worlds (\<open>invoked\<close> only grows).\<close>

definition new_invocations :: "world \<Rightarrow> world \<Rightarrow> (updater \<times> jsval) list" where
  "new_invocations w w' = drop (length (invoked w)) (invoked w')"

text \<open>``Field \<open>f\<close> of the entry depends on property \<open>p\<close>'': the entry holds an array under
  \<open>f\<close>, and the array includes \<open>p\<close> (a symbol is never an element of a \<^verbatim>\<open>string[]\<close>).\<close>

definition depends_on :: "entry \<Rightarrow> string \<Rightarrow> pkey \<Rightarrow> bool" where
  "depends_on e f p =
     (case obj_get e f of
        PDeps ds \<Rightarrow> (case p of PName n \<Rightarrow> n \<in> set ds | PSymbol n \<Rightarrow> False)
      | PStore s \<Rightarrow> False
      | PUndefined \<Rightarrow> False)"




text \<open>The render call of each built-in updater for the value \<open>d\<close> of its data source.\<close>

definition attribute_call :: "elem_ref \<Rightarrow> string \<Rightarrow> jsval \<Rightarrow> surface_call" where
  "attribute_call el a d = (if nullish d then RemoveAttribute el a else SetAttribute el a d)"

definition style_call :: "elem_ref \<Rightarrow> string \<Rightarrow> jsval \<Rightarrow> surface_call" where
  "style_call el a d = (if nullish d then SetStyle el a (JStr []) else SetStyle el a d)"

text \<open>The world after the \<^verbatim>\<open>Reflect.set\<close> of the trap and before its loop.\<close>

definition written :: "store_ref \<Rightarrow> pkey \<Rightarrow> jsval \<Rightarrow> world \<Rightarrow> world" where
  "written s p v w =
     w\<lparr>stores := (stores w)(s := (stores w s)\<lparr>data := snd (Reflect_set (data (stores w s)) p v)\<rparr>)\<rparr>"

text \<open>The world \<^verbatim>\<open>destroy\<close> has made when it enters its loop.\<close>

definition destroying :: "comp_ref \<Rightarrow> world \<Rightarrow> world" where
  "destroying c w =
     w\<lparr>surface := surface w @ [RemoveElement (root (comps w c))],
       comps := (comps w)(c := (comps w c)\<lparr>updaters := Map.empty\<rparr>)\<rparr>"

text \<open>No registry holds two entries for one component.\<close>

definition registry_ok :: "world \<Rightarrow> bool" where
  "registry_ok w = (\<forall>s. distinct (map fst (subscribers (stores w s))))"

subsection \<open>Concrete programs\<close>

text \<open>\<^verbatim>\<open>const counter = remember({ value: 0 })\<close>, and the same record frozen.\<close>

definition counter :: jsobject where
  "counter =
     \<lparr>props = [PName ''value'' \<mapsto> \<lparr>pvalue = JNum 0, writable = True\<rparr>], extensible = True\<rparr>"

definition frozen_counter :: jsobject where
  "frozen_counter =
     \<lparr>props = [PName ''value'' \<mapsto> \<lparr>pvalue = JNum 0, writable = False\<rparr>], extensible = False\<rparr>"

text \<open>\<^verbatim>\<open>{ '_#remember': counter, label: ['value'] }\<close> and the data source
  \<^verbatim>\<open>() => counter.value\<close>, for the first remembered object of a program.\<close>

definition label_entry :: entry where
  "label_entry = [(''_#remember'', PStore 0), (''label'', PDeps [''value''])]"

definition counter_value :: dataSource where
  "counter_value st = proxy_get (st 0) (PName ''value'')"

text \<open>A component with the field \<^verbatim>\<open>label\<close> on \<^verbatim>\<open>counter.value\<close>, before and after
  \<^verbatim>\<open>setInnerText('label')\<close>.\<close>

definition unbound_world :: world where
  "unbound_world =
     world_of (Component [''label'' \<mapsto> counter_value] ''span'' [label_entry]
       (snd (remember counter init_world)))"

definition bound_world :: world where
  "bound_world = world_of (setInnerText 0 ''label'' None unbound_world)"

text \<open>The same program over the frozen record.\<close>

definition frozen_world :: world where
  "frozen_world =
     world_of (setInnerText 0 ''label'' None
       (world_of (Component [''label'' \<mapsto> counter_value] ''span'' [label_entry]
          (snd (remember frozen_counter init_world)))))"

text \<open>A frozen remembered object nobody has subscribed to.\<close>

definition lonely_frozen_world :: world where
  "lonely_frozen_world = snd (remember frozen_counter init_world)"

text \<open>A component with no data source at all:
  \<^verbatim>\<open>new Text({}, [])\<close>.\<close>

definition bare_world :: world where
  "bare_world = world_of (Component Map.empty ''span'' [] init_world)"





text \<open>A child component on a delegated descriptor, one of whose mappings names a source
  field the parent's entry does not have:
  \<^verbatim>\<open>delegate([{ '_#remember': counter, label: ['value'] }],
    [{ source: 'label', target: 'text' }, { source: 'title', target: 'hint' }])\<close>.\<close>

definition label_and_title :: "field_mapping list" where
  "label_and_title =
     [\<lparr>source = ''label'', target = ''text''\<rparr>, \<lparr>source = ''title'', target = ''hint''\<rparr>]"

definition delegated_world :: world where
  "delegated_world =
     (case delegate_declared [label_entry] label_and_title of
        None \<Rightarrow> init_world
      | Some d \<Rightarrow>
          world_of (setInnerText 0 ''text'' None
            (world_of (Component [''text'' \<mapsto> counter_value] ''span'' d
               (snd (remember counter init_world))))))"

section \<open>Properties\<close>

subsection \<open>The notification pass\<close>

lemma digit_char_in: "d < 10 \<Longrightarrow> digit_char d \<in> set ''0123456789''"
  unfolding digit_char_def by (rule nth_mem) simp

lemma index_key_digits: "set (index_key n) \<subseteq> set ''0123456789''"
proof (induction n rule: index_key.induct)
  case (1 n)
  show ?case
  proof (cases "n < 10")
    case True
    then show ?thesis using digit_char_in [of n] by (subst index_key.simps) simp
  next
    case False
    have "n mod 10 < 10" by simp
    then have "digit_char (n mod 10) \<in> set ''0123456789''" by (rule digit_char_in)
    with False 1 show ?thesis by (subst index_key.simps) simp
  qed
qed

lemma index_key_not_remember: "index_key n \<noteq> ''_#remember''"
proof
  assume "index_key n = ''_#remember''"
  then have "CHR ''_'' \<in> set (index_key n)" by simp
  with index_key_digits [of n] show False by auto
qed

lemma includes_call_throws: "includes_call x p = Inl TypeError"
  unfolding includes_call_def by (cases "obj_get x ''includes''") simp_all

lemma fields_to_update_Cons: "fields_to_update (ix # rest) p acc = Inl TypeError"
  by (cases ix) (simp add: index_key_not_remember includes_call_throws Let_def)

lemma fields_to_update_enumerate:
  "fields_to_update (List.enumerate 0 d) p [] = (if d = [] then Inr [] else Inl TypeError)"
  by (cases d) (simp_all add: fields_to_update_Cons)

text \<open>The pass over a registry either meets a descriptor with an entry and throws there, or
  finds every descriptor empty; in neither case has it changed the world.\<close>

lemma notify_outcome:
  "notify subs p oldValue w =
     (if list_all (\<lambda>cd. snd cd = []) subs then Returns () w else Throws TypeError w)"
  by (induction subs arbitrary: w) (auto simp: fields_to_update_enumerate)

lemma world_of_notify: "world_of (notify subs p oldValue w) = w"
  by (simp add: notify_outcome)

lemma proxy_set_outcome:
  "proxy_set s p v w =
     (if list_all (\<lambda>cd. snd cd = []) (subscribers (stores w s))
      then Returns (fst (Reflect_set (data (stores w s)) p v)) (written s p v w)
      else Throws TypeError (written s p v w))"
  by (simp add: proxy_set_def written_def Let_def notify_outcome split: prod.splits)

lemma world_of_proxy_set: "world_of (proxy_set s p v w) = written s p v w"
  by (simp add: proxy_set_def written_def Let_def notify_outcome split: prod.splits)

lemma throws_proxy_set:
  "throws (proxy_set s p v w) = (\<not> list_all (\<lambda>cd. snd cd = []) (subscribers (stores w s)))"
  by (simp add: proxy_set_def Let_def notify_outcome split: prod.splits)

lemma invoked_written [simp]: "invoked (written s p v w) = invoked w"
  by (simp add: written_def)

lemma comps_written [simp]: "comps (written s p v w) = comps w"
  by (simp add: written_def)

lemma surface_written [simp]: "surface (written s p v w) = surface w"
  by (simp add: written_def)

lemma subscribers_written [simp]:
  "subscribers (stores (written s p v w) s') = subscribers (stores w s')"
  by (simp add: written_def)

lemma Reflect_set_fails: "fst (Reflect_set t p v) = False \<Longrightarrow> snd (Reflect_set t p v) = t"
  by (auto simp: Reflect_set_def split: option.splits if_splits)

lemma written_fails:
  "fst (Reflect_set (data (stores w s)) p v) = False \<Longrightarrow> written s p v w = w"
  by (simp add: written_def Reflect_set_fails)



subsection \<open>The concrete programs, evaluated\<close>

lemma unbound_world_eq:
  "unbound_world =
     \<lparr>stores = (\<lambda>s. empty_store)(0 := \<lparr>data = counter, subscribers = [(0, [label_entry])]\<rparr>),
      comps = (\<lambda>c. empty_component)
        (0 := \<lparr>dataSources = [''label'' \<mapsto> counter_value], updaters = Map.empty,
               root = 0, remembered = [label_entry]\<rparr>),
      next_store = 1, next_comp = 1, next_elem = 1,
      surface = [CreateElement ''span'' 0],
      invoked = []\<rparr>"
  by (simp add: unbound_world_def Component_def remember_def init_world_def
      label_entry_def obj_get_def rememberSymbol_def Let_def)

lemma bound_world_eq:
  "bound_world =
     \<lparr>stores = (\<lambda>s. empty_store)(0 := \<lparr>data = counter, subscribers = [(0, [label_entry])]\<rparr>),
      comps = (\<lambda>c. empty_component)
        (0 := \<lparr>dataSources = [''label'' \<mapsto> counter_value],
               updaters = [''label'' \<mapsto> InnerTextUpdater 0 ''label'' 0],
               root = 0, remembered = [label_entry]\<rparr>),
      next_store = 1, next_comp = 1, next_elem = 1,
      surface = [CreateElement ''span'' 0, SetInnerText 0 (JNum 0)],
      invoked = [(InnerTextUpdater 0 ''label'' 0, JUndefined)]\<rparr>"
  by (simp add: bound_world_def unbound_world_eq setInnerText_def call_updater_def
      read_dataSource_def updaters_set_def element_or_root_def counter_value_def proxy_get_def
      Reflect_get_def counter_def Let_def)

lemma frozen_world_eq:
  "frozen_world =
     \<lparr>stores = (\<lambda>s. empty_store)
        (0 := \<lparr>data = frozen_counter, subscribers = [(0, [label_entry])]\<rparr>),
      comps = (\<lambda>c. empty_component)
        (0 := \<lparr>dataSources = [''label'' \<mapsto> counter_value],
               updaters = [''label'' \<mapsto> InnerTextUpdater 0 ''label'' 0],
               root = 0, remembered = [label_entry]\<rparr>),
      next_store = 1, next_comp = 1, next_elem = 1,
      surface = [CreateElement ''span'' 0, SetInnerText 0 (JNum 0)],
      invoked = [(InnerTextUpdater 0 ''label'' 0, JUndefined)]\<rparr>"
  by (simp add: frozen_world_def Component_def remember_def init_world_def
      label_entry_def obj_get_def rememberSymbol_def setInnerText_def call_updater_def
      read_dataSource_def updaters_set_def element_or_root_def counter_value_def proxy_get_def
      Reflect_get_def frozen_counter_def Let_def)

lemma lonely_frozen_world_eq:
  "lonely_frozen_world =
     \<lparr>stores = (\<lambda>s. empty_store)(0 := \<lparr>data = frozen_counter, subscribers = []\<rparr>),
      comps = (\<lambda>c. empty_component),
      next_store = 1, next_comp = 0, next_elem = 0, surface = [], invoked = []\<rparr>"
  by (simp add: lonely_frozen_world_def remember_def init_world_def)

lemma bare_world_eq:
  "bare_world =
     \<lparr>stores = (\<lambda>s. empty_store),
      comps = (\<lambda>c. empty_component)
        (0 := \<lparr>dataSources = Map.empty, updaters = Map.empty, root = 0, remembered = []\<rparr>),
      next_store = 0, next_comp = 1, next_elem = 1,
      surface = [CreateElement ''span'' 0], invoked = []\<rparr>"
  by (simp add: bare_world_def Component_def init_world_def Let_def)

lemma delegate_label_and_title:
  "delegate_declared [label_entry] label_and_title =
     Some [[(''_#remember'', PStore 0), (''text'', PDeps [''value'']), (''hint'', PUndefined)]]"
  by (simp add: delegate_declared_def delegate_def delegate_entry_def label_entry_def
      label_and_title_def lift_entry_def has_property_def Object_prototype_names_def
      js_get_def obj_set_def declared_descriptor_def declared_entry_def)

lemma delegated_world_eq:
  "delegated_world =
     \<lparr>stores = (\<lambda>s. empty_store)
        (0 := \<lparr>data = counter,
               subscribers = [(0, [[(''_#remember'', PStore 0), (''text'', PDeps [''value'']),
                  (''hint'', PUndefined)]])]\<rparr>),
      comps = (\<lambda>c. empty_component)
        (0 := \<lparr>dataSources = [''text'' \<mapsto> counter_value],
               updaters = [''text'' \<mapsto> InnerTextUpdater 0 ''text'' 0],
               root = 0,
               remembered = [[(''_#remember'', PStore 0), (''text'', PDeps [''value'']),
                  (''hint'', PUndefined)]]\<rparr>),
      next_store = 1, next_comp = 1, next_elem = 1,
      surface = [CreateElement ''span'' 0, SetInnerText 0 (JNum 0)],
      invoked = [(InnerTextUpdater 0 ''text'' 0, JUndefined)]\<rparr>"
  by (simp add: delegated_world_def delegate_label_and_title Component_def remember_def
      init_world_def obj_get_def rememberSymbol_def setInnerText_def call_updater_def
      read_dataSource_def updaters_set_def element_or_root_def counter_value_def proxy_get_def
      Reflect_get_def counter_def Let_def)

subsection \<open>Writes to a remembered object\<close>

text \<open>
  \<^bold>\<open>C1\<close> (notify on every write). The claim: a write to property \<open>p\<close> calls, exactly once
  and with the previous value, the updater of every field of a subscribed component whose
  dependency set contains \<open>p\<close>. The code does not do this. In the program
  \<^verbatim>\<open>counter = remember({ value: 0 })\<close>, a component with the descriptor
  \<^verbatim>\<open>[{ '_#remember': counter, label: ['value'] }]\<close> and \<^verbatim>\<open>setInnerText('label')\<close>, the
  component is registered and holds an updater for \<^verbatim>\<open>label\<close>, which depends on
  \<^verbatim>\<open>value\<close>; the write \<^verbatim>\<open>counter.value = 5\<close> stores 5 and then throws a \<^verbatim>\<open>TypeError\<close>
  out of the trap, and the only updater call there has ever been is the one
  \<^verbatim>\<open>setInnerText\<close> made itself.
\<close>

theorem write_throws_instead_of_notifying:
  "subscribers (stores bound_world 0) = [(0, [label_entry])] \<and>
   updaters (comps bound_world 0) ''label'' = Some (InnerTextUpdater 0 ''label'' 0) \<and>
   depends_on label_entry ''label'' (PName ''value'') \<and>
   proxy_set 0 (PName ''value'') (JNum 5) bound_world =
     Throws TypeError (written 0 (PName ''value'') (JNum 5) bound_world) \<and>
   proxy_get (stores (written 0 (PName ''value'') (JNum 5) bound_world) 0) (PName ''value'')
     = JNum 5 \<and>
   new_invocations bound_world (written 0 (PName ''value'') (JNum 5) bound_world) = [] \<and>
   invoked bound_world = [(InnerTextUpdater 0 ''label'' 0, JUndefined)]"
proof -
  have sub: "subscribers (stores bound_world 0) = [(0, [label_entry])]"
    by (simp add: bound_world_eq)
  have upd: "updaters (comps bound_world 0) ''label'' = Some (InnerTextUpdater 0 ''label'' 0)"
    by (simp add: bound_world_eq)
  have dep: "depends_on label_entry ''label'' (PName ''value'')"
    by (simp add: depends_on_def label_entry_def obj_get_def)
  have thr: "proxy_set 0 (PName ''value'') (JNum 5) bound_world =
      Throws TypeError (written 0 (PName ''value'') (JNum 5) bound_world)"
    by (simp add: proxy_set_outcome sub)
  have val: "proxy_get (stores (written 0 (PName ''value'') (JNum 5) bound_world) 0)
      (PName ''value'') = JNum 5"
    by (simp add: written_def bound_world_eq proxy_get_def Reflect_get_def Reflect_set_def
        counter_def)
  have new: "new_invocations bound_world (written 0 (PName ''value'') (JNum 5) bound_world) = []"
    by (simp add: new_invocations_def)
  have inv: "invoked bound_world = [(InnerTextUpdater 0 ''label'' 0, JUndefined)]"
    by (simp add: bound_world_eq)
  from sub upd dep thr val new inv show ?thesis by blast
qed

text \<open>
  \<^bold>\<open>C2\<close> (failed write). The claim: a write that fails is propagated as a plain write
  would, and no updater is called for it. With nobody subscribed this is what happens: on
  the frozen counter the trap returns \<^verbatim>\<open>false\<close>, as \<^verbatim>\<open>Reflect.set\<close> does, and the world is
  as it was. With one component subscribed it is not: the trap does not look at the result
  of \<^verbatim>\<open>Reflect.set\<close> before its loop, the loop throws as in \<^bold>\<open>C1\<close>, and the failed write
  ends with a \<^verbatim>\<open>TypeError\<close> out of the loop, where the plain write returns \<^verbatim>\<open>false\<close>. No
  updater is called in either program.
\<close>

theorem failed_write_throws_from_the_loop:
  "Reflect_set (data (stores frozen_world 0)) (PName ''value'') (JNum 5)
     = (False, data (stores frozen_world 0)) \<and>
   subscribers (stores frozen_world 0) = [(0, [label_entry])] \<and>
   proxy_set 0 (PName ''value'') (JNum 5) frozen_world = Throws TypeError frozen_world \<and>
   Reflect_set (data (stores lonely_frozen_world 0)) (PName ''value'') (JNum 5)
     = (False, data (stores lonely_frozen_world 0)) \<and>
   subscribers (stores lonely_frozen_world 0) = [] \<and>
   proxy_set 0 (PName ''value'') (JNum 5) lonely_frozen_world
     = Returns False lonely_frozen_world"
proof -
  have plain: "Reflect_set (data (stores frozen_world 0)) (PName ''value'') (JNum 5)
      = (False, data (stores frozen_world 0))"
    by (simp add: frozen_world_eq Reflect_set_def frozen_counter_def)
  then have same: "written 0 (PName ''value'') (JNum 5) frozen_world = frozen_world"
    by (simp add: written_fails)
  have sub: "subscribers (stores frozen_world 0) = [(0, [label_entry])]"
    by (simp add: frozen_world_eq)
  then have thr: "proxy_set 0 (PName ''value'') (JNum 5) frozen_world
      = Throws TypeError frozen_world"
    using same by (simp add: proxy_set_outcome)
  have plain': "Reflect_set (data (stores lonely_frozen_world 0)) (PName ''value'') (JNum 5)
      = (False, data (stores lonely_frozen_world 0))"
    by (simp add: lonely_frozen_world_eq Reflect_set_def frozen_counter_def)
  then have same': "written 0 (PName ''value'') (JNum 5) lonely_frozen_world
      = lonely_frozen_world"
    by (simp add: written_fails)
  have sub': "subscribers (stores lonely_frozen_world 0) = []"
    by (simp add: lonely_frozen_world_eq)
  then have ret: "proxy_set 0 (PName ''value'') (JNum 5) lonely_frozen_world
      = Returns False lonely_frozen_world"
    using same' plain' by (simp add: proxy_set_outcome)
  from plain sub thr plain' sub' ret show ?thesis by blast
qed

text \<open>Whatever the registry holds, a write that fails leaves the world as it was, calls
  no updater, and returns \<^verbatim>\<open>false\<close> if it returns.\<close>

lemma failed_write_in_general:
  assumes "fst (Reflect_set (data (stores w s)) p v) = False"
  shows "world_of (proxy_set s p v w) = w"
    and "proxy_set s p v w = Returns b w' \<Longrightarrow> b = False"
  using assms by (simp_all add: world_of_proxy_set written_fails proxy_set_outcome split: if_splits)



text \<open>
  \<^bold>\<open>C10\<close> (fields skipped silently). The claim: a field whose dependency set is
  \<^verbatim>\<open>undefined\<close>, as \<^verbatim>\<open>delegate\<close> produces for a mapping whose source the entry lacks, and
  a field that depends on the written property but has no updater, are skipped without an
  error. Two programs show that an error is raised. In the first the component is built on
  \<^verbatim>\<open>delegate([{ '_#remember': counter, label: ['value'] }], [{ source: 'label', target:
  'text' }, { source: 'title', target: 'hint' }])\<close>, whose one entry holds \<^verbatim>\<open>hint:
  undefined\<close>; in the second the component's field \<^verbatim>\<open>label\<close> depends on \<^verbatim>\<open>value\<close> and no
  updater has been set. In both, \<^verbatim>\<open>counter.value = 5\<close> throws a \<^verbatim>\<open>TypeError\<close>.
\<close>

theorem skipped_fields_write_throws:
  "remembered (comps delegated_world 0) =
     [[(''_#remember'', PStore 0), (''text'', PDeps [''value'']), (''hint'', PUndefined)]] \<and>
   subscribers (stores delegated_world 0) = [(0, remembered (comps delegated_world 0))] \<and>
   proxy_set 0 (PName ''value'') (JNum 5) delegated_world =
     Throws TypeError (written 0 (PName ''value'') (JNum 5) delegated_world) \<and>
   subscribers (stores unbound_world 0) = [(0, [label_entry])] \<and>
   depends_on label_entry ''label'' (PName ''value'') \<and>
   updaters (comps unbound_world 0) ''label'' = None \<and>
   proxy_set 0 (PName ''value'') (JNum 5) unbound_world =
     Throws TypeError (written 0 (PName ''value'') (JNum 5) unbound_world)"
proof -
  have r: "remembered (comps delegated_world 0) =
      [[(''_#remember'', PStore 0), (''text'', PDeps [''value'']), (''hint'', PUndefined)]]"
    by (simp add: delegated_world_eq)
  have s1: "subscribers (stores delegated_world 0) = [(0, remembered (comps delegated_world 0))]"
    by (simp add: delegated_world_eq)
  have t1: "proxy_set 0 (PName ''value'') (JNum 5) delegated_world =
      Throws TypeError (written 0 (PName ''value'') (JNum 5) delegated_world)"
    by (simp add: proxy_set_outcome s1 r)
  have s2: "subscribers (stores unbound_world 0) = [(0, [label_entry])]"
    by (simp add: unbound_world_eq)
  have dep: "depends_on label_entry ''label'' (PName ''value'')"
    by (simp add: depends_on_def label_entry_def obj_get_def)
  have none: "updaters (comps unbound_world 0) ''label'' = None"
    by (simp add: unbound_world_eq)
  have t2: "proxy_set 0 (PName ''value'') (JNum 5) unbound_world =
      Throws TypeError (written 0 (PName ''value'') (JNum 5) unbound_world)"
    by (simp add: proxy_set_outcome s2)
  from r s1 t1 s2 dep none t2 show ?thesis by blast
qed

subsection \<open>Updaters and the three binding methods\<close>

lemma read_dataSource_invoked [simp]:
  "read_dataSource (w\<lparr>invoked := i\<rparr>) c f = read_dataSource w c f"
  by (simp add: read_dataSource_def split: option.splits)


lemma read_dataSource_missing:
  "dataSources (comps w c) f = None \<Longrightarrow> f \<notin> set Object_prototype_names \<Longrightarrow>
   read_dataSource w c f = None"
  by (simp add: read_dataSource_def)


lemma updater_body_invoked [simp]: "invoked (world_of (updater_body u w)) = invoked w"
  by (cases u) (simp_all split: option.splits sum.splits)

lemma updater_body_comps [simp]: "comps (world_of (updater_body u w)) = comps w"
  by (cases u) (simp_all split: option.splits sum.splits)

lemma updater_body_stores [simp]: "stores (world_of (updater_body u w)) = stores w"
  by (cases u) (simp_all split: option.splits sum.splits)



lemma call_updater_stores [simp]: "stores (world_of (call_updater u a w)) = stores w"
  by (simp add: call_updater_def)

lemma updaters_set_invoked [simp]: "invoked (updaters_set c f u w) = invoked w"
  by (simp add: updaters_set_def)

lemma updaters_set_surface [simp]: "surface (updaters_set c f u w) = surface w"
  by (simp add: updaters_set_def)

lemma updaters_set_stores [simp]: "stores (updaters_set c f u w) = stores w"
  by (simp add: updaters_set_def)

lemma updaters_set_updaters [simp]:
  "updaters (comps (updaters_set c f u w) c) = (updaters (comps w c))(f \<mapsto> u)"
  by (simp add: updaters_set_def)

text \<open>What the three built-in updaters do, case by case.\<close>

lemma call_InnerTextUpdater:
  "call_updater (InnerTextUpdater c f el) a w =
     (case read_dataSource w c f of
        None \<Rightarrow> Returns () (w\<lparr>invoked := invoked w @ [(InnerTextUpdater c f el, a)]\<rparr>)
      | Some (Inl e) \<Rightarrow> Throws e (w\<lparr>invoked := invoked w @ [(InnerTextUpdater c f el, a)]\<rparr>)
      | Some (Inr d) \<Rightarrow>
          Returns () (w\<lparr>invoked := invoked w @ [(InnerTextUpdater c f el, a)],
                        surface := surface w @ [SetInnerText el d]\<rparr>))"
  by (simp add: call_updater_def split: option.splits sum.splits)

lemma call_AttributeUpdater:
  "call_updater (AttributeUpdater c n f el) a w =
     (case read_dataSource w c f of
        None \<Rightarrow> Returns () (w\<lparr>invoked := invoked w @ [(AttributeUpdater c n f el, a)]\<rparr>)
      | Some (Inl e) \<Rightarrow> Throws e (w\<lparr>invoked := invoked w @ [(AttributeUpdater c n f el, a)]\<rparr>)
      | Some (Inr d) \<Rightarrow>
          Returns () (w\<lparr>invoked := invoked w @ [(AttributeUpdater c n f el, a)],
                        surface := surface w @ [attribute_call el n d]\<rparr>))"
  by (simp add: call_updater_def attribute_call_def split: option.splits sum.splits)

lemma call_CSSStyleUpdater:
  "call_updater (CSSStyleUpdater c n f el) a w =
     (case read_dataSource w c f of
        None \<Rightarrow> Returns () (w\<lparr>invoked := invoked w @ [(CSSStyleUpdater c n f el, a)]\<rparr>)
      | Some (Inl e) \<Rightarrow> Throws e (w\<lparr>invoked := invoked w @ [(CSSStyleUpdater c n f el, a)]\<rparr>)
      | Some (Inr d) \<Rightarrow>
          Returns () (w\<lparr>invoked := invoked w @ [(CSSStyleUpdater c n f el, a)],
                        surface := surface w @ [style_call el n d]\<rparr>))"
  by (simp add: call_updater_def style_call_def split: option.splits sum.splits)


lemma bind_stores:
  "stores (world_of (case call_updater u JUndefined w of
       Throws e w' \<Rightarrow> Throws e w'
     | Returns x w' \<Rightarrow> Returns () (updaters_set this f u w')))
     = stores w"
proof (cases "call_updater u JUndefined w")
  case (Returns x w')
  with call_updater_stores [of u JUndefined w] show ?thesis by simp
next
  case (Throws e w')
  with call_updater_stores [of u JUndefined w] show ?thesis by simp
qed




lemma setInnerText_stores [simp]: "stores (world_of (setInnerText c f element w)) = stores w"
  by (simp add: setInnerText_def Let_def bind_stores)

lemma setAttribute_stores [simp]: "stores (world_of (setAttribute c a f element w)) = stores w"
  by (simp add: setAttribute_def Let_def bind_stores)

lemma setCSSStyle_stores [simp]: "stores (world_of (setCSSStyle c a f element w)) = stores w"
  by (simp add: setCSSStyle_def Let_def bind_stores)







text \<open>
  \<^bold>\<open>C9\<close> (missing data source). The claim: with no data source for its field, a built-in
  updater returns without a call to the DOM and without an error. The updater tests
  \<^verbatim>\<open>this.dataSources[fieldName]\<close>, which for a name of \<^verbatim>\<open>Object.prototype\<close> is the
  inherited member and not \<^verbatim>\<open>undefined\<close>. On a component with no data source, the text
  updater of the field \<^verbatim>\<open>toString\<close> sets the text to what \<^verbatim>\<open>Object.prototype.toString\<close>
  returns, and that of the field \<^verbatim>\<open>valueOf\<close> throws.
\<close>

theorem updater_inherited_name_counterexample:
  "dataSources (comps bare_world 0) ''toString'' = None \<and>
   call_updater (InnerTextUpdater 0 ''toString'' 0) (JNum 1) bare_world
     = Returns ()
         (bare_world\<lparr>invoked := [(InnerTextUpdater 0 ''toString'' 0, JNum 1)],
                     surface := [CreateElement ''span'' 0,
                                 SetInnerText 0 (JStr ''[object Undefined]'')]\<rparr>) \<and>
   dataSources (comps bare_world 0) ''valueOf'' = None \<and>
   throws (call_updater (InnerTextUpdater 0 ''valueOf'' 0) (JNum 1) bare_world)"
  by (simp add: call_InnerTextUpdater read_dataSource_def Object_prototype_names_def
      call_inherited_def bare_world_eq)

text \<open>
  \<^bold>\<open>C9\<close>, amended. When, at the time of the call, the component has no data source of its
  own under the updater's field and the field name is not one of \<^verbatim>\<open>Object.prototype\<close>, so
  that \<^verbatim>\<open>this.dataSources[fieldName]\<close> is \<^verbatim>\<open>undefined\<close>, a call of a built-in updater returns
  and has changed nothing but the record of calls: the DOM has received no call.
\<close>

theorem updater_without_dataSource_is_silent:
  assumes "dataSources (comps w c) f = None" and "f \<notin> set Object_prototype_names"
  shows "call_updater (InnerTextUpdater c f el) a w
       = Returns () (w\<lparr>invoked := invoked w @ [(InnerTextUpdater c f el, a)]\<rparr>) \<and>
     call_updater (AttributeUpdater c n f el) a w
       = Returns () (w\<lparr>invoked := invoked w @ [(AttributeUpdater c n f el, a)]\<rparr>) \<and>
     call_updater (CSSStyleUpdater c n f el) a w
       = Returns () (w\<lparr>invoked := invoked w @ [(CSSStyleUpdater c n f el, a)]\<rparr>) \<and>
     surface (world_of (call_updater (InnerTextUpdater c f el) a w)) = surface w \<and>
     surface (world_of (call_updater (AttributeUpdater c n f el) a w)) = surface w \<and>
     surface (world_of (call_updater (CSSStyleUpdater c n f el) a w)) = surface w"
  using read_dataSource_missing [OF assms]
  by (simp add: call_InnerTextUpdater call_AttributeUpdater call_CSSStyleUpdater)

theorem updater_without_dataSource_is_silent_witness:
  "dataSources (comps unbound_world 0) ''title'' = None \<and>
   ''title'' \<notin> set Object_prototype_names \<and>
   \<not> throws (call_updater (InnerTextUpdater 0 ''title'' 0) (JNum 1) unbound_world) \<and>
   surface (world_of (call_updater (InnerTextUpdater 0 ''title'' 0) (JNum 1) unbound_world))
     = [CreateElement ''span'' 0] \<and>
   surface (world_of (call_updater (AttributeUpdater 0 ''href'' ''title'' 0) (JNum 1)
       unbound_world))
     = [CreateElement ''span'' 0] \<and>
   surface (world_of (call_updater (CSSStyleUpdater 0 ''color'' ''title'' 0) (JNum 1)
       unbound_world))
     = [CreateElement ''span'' 0]"
proof -
  have n: "dataSources (comps unbound_world 0) ''title'' = None"
    by (simp add: unbound_world_eq)
  have p: "''title'' \<notin> set Object_prototype_names"
    by (simp add: Object_prototype_names_def)
  have s: "surface unbound_world = [CreateElement ''span'' 0]"
    by (simp add: unbound_world_eq)
  from updater_without_dataSource_is_silent [OF n p, of 0 "JNum 1" "''href''"]
    updater_without_dataSource_is_silent [OF n p, of 0 "JNum 1" "''color''"] n p s
  show ?thesis by simp
qed

subsection \<open>\<^verbatim>\<open>destroy\<close>\<close>

lemma forgetSymbol_comps [simp]: "comps (forgetSymbol s c w) = comps w"
  by (simp add: forgetSymbol_def)

lemma forgetSymbol_surface [simp]: "surface (forgetSymbol s c w) = surface w"
  by (simp add: forgetSymbol_def)

lemma forgetSymbol_invoked [simp]: "invoked (forgetSymbol s c w) = invoked w"
  by (simp add: forgetSymbol_def)

lemma forgetSymbol_subscribers:
  "subscribers (stores (forgetSymbol s c w) s') =
     (if s' = s then AList.delete c (subscribers (stores w s)) else subscribers (stores w s'))"
  by (simp add: forgetSymbol_def)




lemma forget_all_comps [simp]: "comps (world_of (forget_all c rs w)) = comps w"
  by (induction rs arbitrary: w) (simp_all split: pval.splits)

lemma forget_all_surface [simp]: "surface (world_of (forget_all c rs w)) = surface w"
  by (induction rs arbitrary: w) (simp_all split: pval.splits)

lemma forget_all_invoked [simp]: "invoked (world_of (forget_all c rs w)) = invoked w"
  by (induction rs arbitrary: w) (simp_all split: pval.splits)



lemma destroy_eq: "destroy c w = forget_all c (remembered (comps w c)) (destroying c w)"
  by (simp add: destroy_def destroying_def Let_def Object_assign_def)

text \<open>What \<^verbatim>\<open>destroy\<close> does to the component and to the DOM, whether or not its loop
  completes: one \<^verbatim>\<open>remove()\<close> of the root, an empty \<open>updaters\<close> map, and the data sources
  it had.\<close>

lemma destroy_surface:
  "surface (world_of (destroy c w)) = surface w @ [RemoveElement (root (comps w c))]"
  by (simp add: destroy_eq) (simp add: destroying_def)

lemma destroy_updaters: "updaters (comps (world_of (destroy c w)) c) = Map.empty"
  by (simp add: destroy_eq) (simp add: destroying_def)

lemma destroy_dataSources:
  "dataSources (comps (world_of (destroy c w)) c) = dataSources (comps w c)"
  by (simp add: destroy_eq) (simp add: destroying_def)

lemma destroy_invoked: "invoked (world_of (destroy c w)) = invoked w"
  by (simp add: destroy_eq) (simp add: destroying_def)

text \<open>
  \<^bold>\<open>C3\<close> (what \<^verbatim>\<open>destroy\<close> clears). The claim: \<^verbatim>\<open>destroy()\<close> removes the root node, leaves
  the updater map empty, leaves the data-source mapping empty and deregisters the component
  from every store of its descriptor. The data-source mapping is not emptied:
  \<^verbatim>\<open>Object.assign(this.dataSources, {})\<close> copies the properties of \<^verbatim>\<open>{}\<close>, of which there
  are none, and removes nothing (\<open>destroy_dataSources\<close>). After \<^verbatim>\<open>destroy()\<close> of the
  component with the data source \<^verbatim>\<open>label\<close>, that data source is still there; the other
  three parts of the claim hold.
\<close>

theorem destroy_keeps_dataSources:
  "dataSources (comps bound_world 0) ''label'' = Some counter_value \<and>
   \<not> throws (destroy 0 bound_world) \<and>
   dataSources (comps (world_of (destroy 0 bound_world)) 0) ''label'' = Some counter_value \<and>
   updaters (comps (world_of (destroy 0 bound_world)) 0) = Map.empty \<and>
   subscribers (stores (world_of (destroy 0 bound_world)) 0) = [] \<and>
   surface (world_of (destroy 0 bound_world)) = surface bound_world @ [RemoveElement 0]"
proof -
  have ds: "dataSources (comps bound_world 0) ''label'' = Some counter_value"
    by (simp add: bound_world_eq)
  have run: "destroy 0 bound_world =
      Returns () (forgetSymbol 0 0 (destroying 0 bound_world))"
    by (simp add: destroy_eq) (simp add: bound_world_eq label_entry_def obj_get_def)
  have sub: "subscribers (stores (forgetSymbol 0 0 (destroying 0 bound_world)) 0) = []"
    by (simp add: forgetSymbol_subscribers) (simp add: destroying_def bound_world_eq)
  have rt: "root (comps bound_world 0) = 0"
    by (simp add: bound_world_eq)
  from ds run sub rt show ?thesis
    using destroy_dataSources [of 0 bound_world] destroy_updaters [of 0 bound_world]
      destroy_surface [of 0 bound_world]
    by simp
qed



subsection \<open>The registry of a remembered object\<close>

lemma rememberSymbol_subscribers:
  "subscribers (stores (rememberSymbol s c d w) s') =
     (if s' = s then AList.update c d (subscribers (stores w s)) else subscribers (stores w s'))"
  by (simp add: rememberSymbol_def)

lemma registry_ok_rememberSymbol: "registry_ok w \<Longrightarrow> registry_ok (rememberSymbol s c d w)"
  by (simp add: registry_ok_def rememberSymbol_subscribers AList.distinct_update)

lemma registry_ok_forgetSymbol: "registry_ok w \<Longrightarrow> registry_ok (forgetSymbol s c w)"
  by (simp add: registry_ok_def forgetSymbol_subscribers AList.distinct_delete)

lemma registry_ok_same_stores: "stores w' = stores w \<Longrightarrow> registry_ok w' = registry_ok w"
  by (simp add: registry_ok_def)

lemma registry_ok_remember: "registry_ok w \<Longrightarrow> registry_ok (snd (remember initialData w))"
  by (simp add: registry_ok_def remember_def)

lemma registry_ok_written: "registry_ok w \<Longrightarrow> registry_ok (written s p v w)"
  by (simp add: registry_ok_def)

lemma registry_ok_register_all:
  "registry_ok w \<Longrightarrow> registry_ok (world_of (register_all c whole rs w))"
proof (induction rs arbitrary: w)
  case Nil
  then show ?case by simp
next
  case (Cons r rs)
  show ?case
  proof (cases "obj_get r ''_#remember''")
    case (PStore s)
    from Cons.prems have "registry_ok (rememberSymbol s c whole w)"
      by (rule registry_ok_rememberSymbol)
    then show ?thesis using PStore Cons.IH by simp
  next
    case (PDeps ds)
    with Cons.prems show ?thesis by simp
  next
    case PUndefined
    with Cons.prems show ?thesis by simp
  qed
qed

lemma registry_ok_forget_all:
  "registry_ok w \<Longrightarrow> registry_ok (world_of (forget_all c rs w))"
proof (induction rs arbitrary: w)
  case Nil
  then show ?case by simp
next
  case (Cons r rs)
  show ?case
  proof (cases "obj_get r ''_#remember''")
    case (PStore s)
    from Cons.prems have "registry_ok (forgetSymbol s c w)"
      by (rule registry_ok_forgetSymbol)
    then show ?thesis using PStore Cons.IH by simp
  next
    case (PDeps ds)
    with Cons.prems show ?thesis by simp
  next
    case PUndefined
    with Cons.prems show ?thesis by simp
  qed
qed

lemma world_of_case_outcome [simp]:
  "world_of (case x of Returns u w \<Rightarrow> Returns (f u) w | Throws e w \<Rightarrow> Throws e w) = world_of x"
  by (cases x) simp_all

lemma registry_ok_Component:
  assumes "registry_ok w"
  shows "registry_ok (world_of (Component ds rootTag d w))"
proof -
  let ?w1 = "w\<lparr>comps := (comps w)
                  (next_comp w := \<lparr>dataSources = ds, updaters = Map.empty, root = next_elem w,
                            remembered = d\<rparr>),
                next_comp := Suc (next_comp w),
                next_elem := Suc (next_elem w),
                surface := surface w @ [CreateElement rootTag (next_elem w)]\<rparr>"
  have "registry_ok ?w1" using assms by (simp add: registry_ok_def)
  then have "registry_ok (world_of (register_all (next_comp w) d d ?w1))"
    by (rule registry_ok_register_all)
  moreover have "world_of (Component ds rootTag d w)
      = world_of (register_all (next_comp w) d d ?w1)"
    by (cases "register_all (next_comp w) d d ?w1") (simp_all add: Component_def Let_def)
  ultimately show ?thesis by simp
qed

lemma registry_ok_destroy:
  assumes "registry_ok w"
  shows "registry_ok (world_of (destroy c w))"
proof -
  have "registry_ok (destroying c w)" using assms by (simp add: registry_ok_def destroying_def)
  then show ?thesis unfolding destroy_eq by (rule registry_ok_forget_all)
qed

lemma reachable_registry_ok: "reachable w \<Longrightarrow> registry_ok w"
proof (induction rule: reachable.induct)
  case r_init
  show ?case by (simp add: registry_ok_def init_world_def empty_store_def)
next
  case (r_remember w initialData)
  then show ?case by (simp add: registry_ok_remember)
next
  case (r_rememberSymbol w s c d)
  then show ?case by (simp add: registry_ok_rememberSymbol)
next
  case (r_forgetSymbol w s c)
  then show ?case by (simp add: registry_ok_forgetSymbol)
next
  case (r_set w s p v)
  then show ?case by (simp add: world_of_proxy_set registry_ok_written)
next
  case (r_Component w ds rootTag d)
  then show ?case by (simp add: registry_ok_Component)
next
  case (r_setInnerText w c f element)
  then show ?case by (simp add: registry_ok_def)
next
  case (r_setAttribute w c a f element)
  then show ?case by (simp add: registry_ok_def)
next
  case (r_setCSSStyle w c a f element)
  then show ?case by (simp add: registry_ok_def)
next
  case (r_updaters_set w c f u)
  then show ?case by (simp add: registry_ok_def)
next
  case (r_destroy w c)
  then show ?case by (simp add: registry_ok_destroy)
qed

lemma length_filter_key_update:
  "distinct (map fst al) \<Longrightarrow> length (filter (\<lambda>e. fst e = k) (AList.update k v al)) = 1"
proof (induction al)
  case Nil
  show ?case by simp
next
  case (Cons a al)
  show ?case
  proof (cases "fst a = k")
    case True
    with Cons.prems have "k \<notin> fst ` set al" by auto
    then have "filter (\<lambda>e. fst e = k) al = []" by (auto simp: filter_empty_conv)
    with True show ?thesis by simp
  next
    case False
    with Cons show ?thesis by simp
  qed
qed

text \<open>
  \<^bold>\<open>C6\<close> (registration replaces). In every world a program can reach, the registry of every
  remembered object has at most one entry per component; and after two registrations of a
  component \<open>c\<close> with the same object, first with \<open>d1\<close> and then with \<open>d2\<close>, the
  registry holds exactly one entry for \<open>c\<close>, and it is \<open>d2\<close>.
\<close>

theorem registry_one_entry_per_component:
  assumes "reachable w"
  shows "distinct (map fst (subscribers (stores w s))) \<and>
     map_of (subscribers (stores (rememberSymbol s c d2 (rememberSymbol s c d1 w)) s)) c
       = Some d2 \<and>
     filter (\<lambda>e. fst e = c)
       (subscribers (stores (rememberSymbol s c d2 (rememberSymbol s c d1 w)) s)) = [(c, d2)]"
proof -
  from assms have ok: "registry_ok w" by (rule reachable_registry_ok)
  then have d: "distinct (map fst (subscribers (stores w s)))"
    by (simp add: registry_ok_def)
  let ?r = "subscribers (stores (rememberSymbol s c d2 (rememberSymbol s c d1 w)) s)"
  have r: "?r = AList.update c d2 (AList.update c d1 (subscribers (stores w s)))"
    by (simp add: rememberSymbol_subscribers)
  have m: "map_of ?r c = Some d2"
    by (simp add: r AList.update_conv')
  from d have "distinct (map fst (AList.update c d1 (subscribers (stores w s))))"
    by (simp add: AList.distinct_update)
  then have one: "length (filter (\<lambda>e. fst e = c) ?r) = 1"
    unfolding r by (rule length_filter_key_update)
  then obtain x where x: "filter (\<lambda>e. fst e = c) ?r = [x]"
    by (cases "filter (\<lambda>e. fst e = c) ?r") auto
  then have "x \<in> set (filter (\<lambda>e. fst e = c) ?r)" by simp
  then have xin: "x \<in> set ?r" and xk: "fst x = c" by auto
  from d have "distinct (map fst ?r)"
    by (simp add: r AList.distinct_update)
  with xin have "map_of ?r (fst x) = Some (snd x)" by simp
  with m xk have "x = (c, d2)" by (cases x) simp
  with x d m show ?thesis by simp
qed

theorem registry_one_entry_per_component_witness:
  "reachable init_world \<and>
   distinct (map fst (subscribers (stores init_world 0))) \<and>
   map_of (subscribers (stores
       (rememberSymbol 0 0 [label_entry] (rememberSymbol 0 0 [] init_world)) 0)) 0
     = Some [label_entry] \<and>
   filter (\<lambda>e. fst e = 0)
     (subscribers (stores
       (rememberSymbol 0 0 [label_entry] (rememberSymbol 0 0 [] init_world)) 0))
     = [(0, [label_entry])]"
  using registry_one_entry_per_component [OF r_init, of 0 0 "[label_entry]" "[]"] r_init
  by simp

subsection \<open>\<^verbatim>\<open>delegate\<close>\<close>

text \<open>On an entry of the declared type, at a key that \<^verbatim>\<open>Object.prototype\<close> does not have,
  the two readers agree; \<open>obj_get\<close> is used at two such keys.\<close>

lemma map_of_lift_entry: "map_of (lift_entry e) k = map_option Declared (map_of e k)"
  by (induction e) (auto simp: lift_entry_def)

lemma js_get_lift_entry:
  "k \<notin> set Object_prototype_names \<Longrightarrow> js_get (lift_entry e) k = Declared (obj_get e k)"
  by (simp add: js_get_def obj_get_def map_of_lift_entry split: option.splits)

lemma fixed_keys_not_inherited:
  "''_#remember'' \<notin> set Object_prototype_names" "''includes'' \<notin> set Object_prototype_names"
  by (simp_all add: Object_prototype_names_def)















subsection \<open>\<^verbatim>\<open>delegate\<close> in the heap\<close>








end
